theory Spec2Isabelle
  imports Main
begin

section \<open>The user permission store of the web client\<close>

text \<open>
  A shallow embedding of \<^verbatim>\<open>src/web/core/store/user/permissions.store.ts\<close>: the class
  \<^verbatim>\<open>UserPermissionStore\<close> with its three observable maps, its two memoised lookups,
  \<^verbatim>\<open>allowPermissions\<close> and its six asynchronous actions.

  Conventions of the embedding.
  \<^item> A value of type \<^verbatim>\<open>T | undefined\<close> is a \<open>T option\<close>; \<open>None\<close> is \<^verbatim>\<open>undefined\<close>.
  \<^item> A \<^verbatim>\<open>Record<string, T>\<close> is a map \<open>string \<rightharpoonup> T\<close> of its own properties. A
    property read \<^verbatim>\<open>obj[k]\<close> that finds no own property goes on to the prototype, and
    lodash \<^verbatim>\<open>set\<close> and \<^verbatim>\<open>unset\<close> treat some keys specially; both are written out
    below, over a record of what the JavaScript runtime and lodash do outside this
    repository.
  \<^item> JavaScript truthiness is written out: a string is truthy iff it is not empty, a
    number iff it is not \<open>0\<close>, an object always, \<^verbatim>\<open>undefined\<close> never.
  \<^item> An action awaits one remote call and touches the cache only afterwards, in one
    synchronous \<^verbatim>\<open>runInAction\<close> block. It is modelled as a function of the settled
    remote call (\<open>Inl\<close> a rejection, \<open>Inr\<close> the resolved value) and of the store at
    the moment the call settles; it returns how its own promise settles, the store
    after it, and what it wrote to the console.
\<close>

subsection \<open>Data model\<close>

text \<open>
  \<^verbatim>\<open>EUserPermissions\<close> is a numeric enum declared outside the sources at hand; the
  store receives role values from the remote services and casts them, so a role is the
  number that arrived.
\<close>

type_synonym EUserPermissions = int

text \<open>\<^verbatim>\<open>EUserPermissionsLevel\<close>: the two levels the store compares against.\<close>

datatype EUserPermissionsLevel = WORKSPACE | PROJECT

text \<open>
  \<^verbatim>\<open>IWorkspaceMemberMe\<close> and \<^verbatim>\<open>IProjectMember\<close> come from the types package. The
  store reads only their \<^verbatim>\<open>role\<close>; the other fields stand for the user fields
  they carry.
\<close>

record member_fields =
  id :: string
  member :: string
  role :: EUserPermissions

record IWorkspaceMemberMe = member_fields +
  workspace :: string

record IProjectMember = member_fields +
  project :: string

text \<open>\<^verbatim>\<open>IUserProjectsRole\<close>: projectId to role.\<close>

type_synonym IUserProjectsRole = "string \<rightharpoonup> EUserPermissions"

text \<open>
  The three observables, each the map of the own properties of its object. The two nested
  maps have the same shape, and a slot of theirs is an \<open>option\<close>:
  \<^verbatim>\<open>fetchUserProjectPermissions\<close> stores its response without testing it, so a key of
  \<^verbatim>\<open>projectPermissions\<close> can be present and hold \<^verbatim>\<open>undefined\<close>.
\<close>

record store =
  workspaceUserInfo :: "string \<rightharpoonup> IWorkspaceMemberMe"
  projectUserInfo :: "string \<rightharpoonup> (string \<rightharpoonup> IProjectMember) option"
  projectPermissions :: "string \<rightharpoonup> IUserProjectsRole option"

definition initial_store :: store where
  "initial_store =
     \<lparr>workspaceUserInfo = Map.empty, projectUserInfo = Map.empty, projectPermissions = Map.empty\<rparr>"

text \<open>\<^verbatim>\<open>this.store.router\<close>: the navigation context.\<close>

record router =
  currentWorkspaceSlug :: "string option"
  currentProjectId :: "string option"

text \<open>
  A thrown or rejected value. \<open>DeepMapLength expected got\<close> is the error of mobx-utils,
  "DeepMap should be used with functions with a consistent length, expected: ..., got:
  ...".
\<close>

datatype error = Error string | DeepMapLength nat nat

subsection \<open>The JavaScript runtime and lodash\<close>

text \<open>
  A value that is neither a record nor a role: what a property inherited from a prototype
  holds. \<open>JObject\<close> stands for an object or a function, told apart by a number.
\<close>

datatype jsval = JNumber int | JString string | JObject nat

fun truthy :: "jsval \<Rightarrow> bool" where
  "truthy (JNumber n) = (n \<noteq> 0)"
| "truthy (JString str) = (str \<noteq> [])"
| "truthy (JObject _) = True"

text \<open>
  What lies outside the repository, taken as a parameter:
  \<^item> \<open>inherited k\<close>: what \<^verbatim>\<open>obj[k]\<close> gives for a plain object with no own property
    \<open>k\<close>, that is, the property \<open>k\<close> of \<^verbatim>\<open>Object.prototype\<close> (\<^verbatim>\<open>constructor\<close>,
    \<^verbatim>\<open>toString\<close>, ...), and \<open>None\<close> when there is none;
  \<^item> \<open>property v k\<close>: \<^verbatim>\<open>v[k]\<close> for such a value;
  \<^item> \<open>isDeepPath k\<close>: lodash takes the string \<open>k\<close> for a path of several keys (it is not
    a plain property name and has a dot or a bracketed part), and \<open>stringToPath k\<close> is
    that path;
  \<^item> \<open>pruneWorkspaceMember\<close> and \<open>pruneProjectMember\<close>: a stored record after
    \<^verbatim>\<open>unset\<close> has deleted the path inside it.
\<close>

record runtime =
  inherited :: "string \<rightharpoonup> jsval"
  property :: "jsval \<Rightarrow> string \<rightharpoonup> jsval"
  isDeepPath :: "string \<Rightarrow> bool"
  stringToPath :: "string \<Rightarrow> string list"
  pruneWorkspaceMember :: "IWorkspaceMemberMe \<Rightarrow> string list \<Rightarrow> IWorkspaceMemberMe"
  pruneProjectMember :: "IProjectMember \<Rightarrow> string list \<Rightarrow> IProjectMember"

text \<open>What a property read gives: nothing, an own property, or an inherited value.\<close>

datatype 'a read = Undefined | Own 'a | Foreign jsval

text \<open>\<^verbatim>\<open>obj[k]\<close>: the own property, else the prototype's.\<close>

definition get_property :: "runtime \<Rightarrow> (string \<rightharpoonup> 'v) \<Rightarrow> string \<Rightarrow> 'v read" where
  "get_property rtm obj k =
     (case obj k of
        Some v \<Rightarrow> Own v
      | None \<Rightarrow> (case inherited rtm k of Some w \<Rightarrow> Foreign w | None \<Rightarrow> Undefined))"

text \<open>The keys at which lodash \<^verbatim>\<open>set\<close> stops and returns the object.\<close>

definition refused :: "string \<Rightarrow> bool" where
  "refused k = (k = ''__proto__'' \<or> k = ''constructor'' \<or> k = ''prototype'')"

text \<open>\<^verbatim>\<open>set(obj, [k], v)\<close>: assign the property, unless the key is refused.\<close>

definition lodash_set1 :: "(string \<rightharpoonup> 'v) \<Rightarrow> string \<Rightarrow> 'v \<Rightarrow> (string \<rightharpoonup> 'v)" where
  "lodash_set1 obj k v = (if refused k then obj else obj(k \<mapsto> v))"

text \<open>
  \<^verbatim>\<open>set(obj, [k1, k2], v)\<close> walks the path. At a refused key it stops and returns. At
  \<open>k1\<close>, when \<^verbatim>\<open>obj[k1]\<close> is not an object, a fresh empty one is put there; then the
  property \<open>k2\<close> of \<^verbatim>\<open>obj[k1]\<close> is assigned. So a refused \<open>k2\<close> is met after
  \<open>k1\<close> has been assigned. (When \<open>k2\<close> is an array index the fresh object is an array,
  which also has a \<^verbatim>\<open>length\<close>; the map keeps the assigned entry only.)
\<close>

definition lodash_set2 ::
  "(string \<rightharpoonup> (string \<rightharpoonup> 'v) option) \<Rightarrow> string \<Rightarrow> string \<Rightarrow> 'v \<Rightarrow> (string \<rightharpoonup> (string \<rightharpoonup> 'v) option)"
where
  "lodash_set2 obj k1 k2 v =
     (if refused k1 then obj
      else
        (let nested = (case obj k1 of Some (Some inner) \<Rightarrow> inner | _ \<Rightarrow> Map.empty)
         in if refused k2 then obj(k1 \<mapsto> Some nested)
            else obj(k1 \<mapsto> Some (nested(k2 \<mapsto> v)))))"

text \<open>
  \<^verbatim>\<open>unset(obj, path)\<close> with a string, as \<^verbatim>\<open>leaveWorkspace\<close> calls it. The string is
  the key itself when it is a property of the object, own or inherited, or is not a deep
  path; deleting a property that is not an own one changes nothing. Otherwise the string
  is parsed: a path of one key deletes that key, and a longer path deletes inside the
  value stored at its first key, which \<open>inside\<close> does.
\<close>

definition lodash_unset ::
  "runtime \<Rightarrow> ('v \<Rightarrow> string list \<Rightarrow> 'v) \<Rightarrow> (string \<rightharpoonup> 'v) \<Rightarrow> string \<Rightarrow> (string \<rightharpoonup> 'v)"
where
  "lodash_unset rtm inside obj path =
     (if obj path \<noteq> None then obj(path := None)
      else if inherited rtm path \<noteq> None then obj
      else if isDeepPath rtm path then
        (case stringToPath rtm path of
           [] \<Rightarrow> obj
         | [k] \<Rightarrow> obj(k := None)
         | k # rest \<Rightarrow> (case obj k of Some v \<Rightarrow> obj(k \<mapsto> inside v rest) | None \<Rightarrow> obj))
      else obj)"

text \<open>
  Deleting along a path inside a slot of \<^verbatim>\<open>projectPermissions\<close>: one more key deletes
  the role; there is nothing to delete inside a role or inside \<^verbatim>\<open>undefined\<close>.
\<close>

fun inside_roles :: "IUserProjectsRole option \<Rightarrow> string list \<Rightarrow> IUserProjectsRole option" where
  "inside_roles (Some roles) [k] = Some (roles(k := None))"
| "inside_roles slot _ = slot"

text \<open>
  The same inside a slot of \<^verbatim>\<open>projectUserInfo\<close>: one more key deletes the record, a
  longer path deletes inside the record.
\<close>

fun inside_members ::
  "runtime \<Rightarrow> (string \<rightharpoonup> IProjectMember) option \<Rightarrow> string list \<Rightarrow> (string \<rightharpoonup> IProjectMember) option"
where
  "inside_members rtm (Some members) [k] = Some (members(k := None))"
| "inside_members rtm (Some members) (k # rest) =
     (case members k of
        Some r \<Rightarrow> Some (members(k \<mapsto> pruneProjectMember rtm r rest))
      | None \<Rightarrow> Some members)"
| "inside_members rtm slot _ = slot"

text \<open>
  \<^verbatim>\<open>unset(obj, [k1, k2])\<close>: nothing happens when \<^verbatim>\<open>obj[k1]\<close> is null or undefined;
  otherwise the property \<open>k2\<close> of \<^verbatim>\<open>obj[k1]\<close> is deleted.
\<close>

definition lodash_unset2 ::
  "(string \<rightharpoonup> (string \<rightharpoonup> 'v) option) \<Rightarrow> string \<Rightarrow> string \<Rightarrow> (string \<rightharpoonup> (string \<rightharpoonup> 'v) option)"
where
  "lodash_unset2 obj k1 k2 =
     (case obj k1 of
        Some (Some inner) \<Rightarrow> obj(k1 \<mapsto> Some (inner(k2 := None)))
      | _ \<Rightarrow> obj)"

text \<open>The own entry at \<^verbatim>\<open>obj[k1][k2]\<close>.\<close>

definition chain2 :: "(string \<rightharpoonup> (string \<rightharpoonup> 'v) option) \<Rightarrow> string \<Rightarrow> string \<Rightarrow> 'v option" where
  "chain2 obj k1 k2 = (case obj k1 of Some (Some inner) \<Rightarrow> inner k2 | _ \<Rightarrow> None)"

subsection \<open>Computed helpers\<close>

text \<open>
  The three helpers are built with \<^verbatim>\<open>computedFn\<close> of mobx-utils. Its wrapper keeps
  the number of arguments of the first call and throws when a later call has another
  number; it memoises results per argument tuple inside a reaction and recomputes them
  when the observables change, which a pure function does not show. The two lookups have
  only required parameters, so every well-typed call has the same number of arguments and
  the wrapper never throws; \<^verbatim>\<open>allowPermissions\<close> has optional ones, and its wrapper is
  written out below.
\<close>

text \<open>
  \<^verbatim>\<open>workspaceInfoBySlug\<close>: a property read, and \<^verbatim>\<open>|| undefined\<close>. A stored record is
  an object, hence truthy.
\<close>

definition workspaceInfoBySlug :: "runtime \<Rightarrow> store \<Rightarrow> string \<Rightarrow> IWorkspaceMemberMe read" where
  "workspaceInfoBySlug rtm s workspaceSlug =
     (if workspaceSlug = [] then Undefined
      else (case get_property rtm (workspaceUserInfo s) workspaceSlug of
              Own r \<Rightarrow> Own r
            | Foreign w \<Rightarrow> if truthy w then Foreign w else Undefined
            | Undefined \<Rightarrow> Undefined))"

text \<open>
  \<^verbatim>\<open>projectPermissionsByWorkspaceSlugAndProjectId\<close>: two property reads with optional
  chaining, and \<^verbatim>\<open>|| undefined\<close>, which turns the role \<open>0\<close> into \<^verbatim>\<open>undefined\<close>.
  An own slot that holds \<^verbatim>\<open>undefined\<close> ends the chain.
\<close>

definition projectPermissionsByWorkspaceSlugAndProjectId ::
  "runtime \<Rightarrow> store \<Rightarrow> string \<Rightarrow> string \<Rightarrow> EUserPermissions read"
where
  "projectPermissionsByWorkspaceSlugAndProjectId rtm s workspaceSlug projectId =
     (if workspaceSlug = [] \<or> projectId = [] then Undefined
      else
        (case (case get_property rtm (projectPermissions s) workspaceSlug of
                 Own (Some roles) \<Rightarrow> get_property rtm roles projectId
               | Own None \<Rightarrow> Undefined
               | Foreign w \<Rightarrow>
                   (case property rtm w projectId of Some x \<Rightarrow> Foreign x | None \<Rightarrow> Undefined)
               | Undefined \<Rightarrow> Undefined) of
           Own r \<Rightarrow> if r = 0 then Undefined else Own r
         | Foreign x \<Rightarrow> if truthy x then Foreign x else Undefined
         | Undefined \<Rightarrow> Undefined))"









subsection \<open>Actions\<close>

text \<open>How an action ends: its own promise, the store, the console.\<close>

record 'a settled =
  outcome :: "error + 'a"
  cache :: store
  logged :: "(string \<times> error) list"

definition resolved :: "'a \<Rightarrow> store \<Rightarrow> 'a settled" where
  "resolved v s = \<lparr>outcome = Inr v, cache = s, logged = []\<rparr>"

text \<open>The \<^verbatim>\<open>catch\<close> block shared by the six actions: log, then rethrow.\<close>

definition rethrown :: "string \<Rightarrow> error \<Rightarrow> store \<Rightarrow> 'a settled" where
  "rethrown msg e s = \<lparr>outcome = Inl e, cache = s, logged = [(msg, e)]\<rparr>"

definition fetchUserWorkspaceInfo ::
  "string \<Rightarrow> error + IWorkspaceMemberMe option \<Rightarrow> store \<Rightarrow> IWorkspaceMemberMe option settled"
where
  "fetchUserWorkspaceInfo workspaceSlug remote s =
     (case remote of
        Inr response \<Rightarrow>
          resolved response
            (case response of
               Some r \<Rightarrow> s\<lparr>workspaceUserInfo := lodash_set1 (workspaceUserInfo s) workspaceSlug r\<rparr>
             | None \<Rightarrow> s)
      | Inl e \<Rightarrow> rethrown ''Error fetching user workspace information'' e s)"

definition leaveWorkspace :: "runtime \<Rightarrow> string \<Rightarrow> error + unit \<Rightarrow> store \<Rightarrow> unit settled" where
  "leaveWorkspace rtm workspaceSlug remote s =
     (case remote of
        Inr _ \<Rightarrow>
          resolved ()
            (s\<lparr>workspaceUserInfo :=
                 lodash_unset rtm (pruneWorkspaceMember rtm) (workspaceUserInfo s) workspaceSlug,
               projectUserInfo :=
                 lodash_unset rtm (inside_members rtm) (projectUserInfo s) workspaceSlug,
               projectPermissions :=
                 lodash_unset rtm inside_roles (projectPermissions s) workspaceSlug\<rparr>)
      | Inl e \<Rightarrow> rethrown ''Error user leaving the workspace'' e s)"

definition fetchUserProjectInfo ::
  "string \<Rightarrow> string \<Rightarrow> error + IProjectMember option \<Rightarrow> store \<Rightarrow> IProjectMember option settled"
where
  "fetchUserProjectInfo workspaceSlug projectId remote s =
     (case remote of
        Inr response \<Rightarrow>
          resolved response
            (case response of
               Some r \<Rightarrow>
                 s\<lparr>projectUserInfo := lodash_set2 (projectUserInfo s) workspaceSlug projectId r,
                   projectPermissions :=
                     lodash_set2 (projectPermissions s) workspaceSlug projectId (role r)\<rparr>
             | None \<Rightarrow> s)
      | Inl e \<Rightarrow> rethrown ''Error fetching user project information'' e s)"

definition fetchUserProjectPermissions ::
  "string \<Rightarrow> error + IUserProjectsRole option \<Rightarrow> store \<Rightarrow> IUserProjectsRole option settled"
where
  "fetchUserProjectPermissions workspaceSlug remote s =
     (case remote of
        Inr response \<Rightarrow>
          resolved response
            (s\<lparr>projectPermissions := lodash_set1 (projectPermissions s) workspaceSlug response\<rparr>)
      | Inl e \<Rightarrow> rethrown ''Error fetching user project permissions'' e s)"

text \<open>
  \<^verbatim>\<open>joinProject\<close> stores the response itself as the role; a response is truthy when
  it is there and not \<open>0\<close>.
\<close>

definition joinProject ::
  "string \<Rightarrow> string \<Rightarrow> error + EUserPermissions option \<Rightarrow> store \<Rightarrow> EUserPermissions option settled"
where
  "joinProject workspaceSlug projectId remote s =
     (case remote of
        Inr response \<Rightarrow>
          resolved response
            (case response of
               Some r \<Rightarrow>
                 if r \<noteq> 0 then
                   s\<lparr>projectPermissions :=
                       lodash_set2 (projectPermissions s) workspaceSlug projectId r\<rparr>
                 else s
             | None \<Rightarrow> s)
      | Inl e \<Rightarrow> rethrown ''Error user joining the project'' e s)"

definition leaveProject :: "string \<Rightarrow> string \<Rightarrow> error + unit \<Rightarrow> store \<Rightarrow> unit settled" where
  "leaveProject workspaceSlug projectId remote s =
     (case remote of
        Inr _ \<Rightarrow>
          resolved ()
            (s\<lparr>projectPermissions :=
                 lodash_unset2 (projectPermissions s) workspaceSlug projectId\<rparr>)
      | Inl e \<Rightarrow> rethrown ''Error user leaving the project'' e s)"

subsection \<open>The entities of the specification\<close>

text \<open>
  ProjectMembership and ProjectRoleIndex, read at a pair of keys: the entry of the nested
  map, with no test of truthiness.
\<close>

definition ProjectMembership :: "store \<Rightarrow> string \<Rightarrow> string \<Rightarrow> IProjectMember option" where
  "ProjectMembership s workspaceSlug projectId = chain2 (projectUserInfo s) workspaceSlug projectId"

definition ProjectRoleIndex :: "store \<Rightarrow> string \<Rightarrow> string \<Rightarrow> EUserPermissions option" where
  "ProjectRoleIndex s workspaceSlug projectId = chain2 (projectPermissions s) workspaceSlug projectId"

text \<open>
  The permission check as the specification words it, for keys given explicitly: the role
  is read at the requested level (the \<^verbatim>\<open>role\<close> of the WorkspaceMembership record, or the
  ProjectRoleIndex entry); no role gives false, a role outside \<open>allowedRoles\<close> gives
  false, a role inside gives the callback's result when there is a callback and true
  otherwise.
\<close>

definition role_at :: "store \<Rightarrow> EUserPermissionsLevel \<Rightarrow> string \<Rightarrow> string \<Rightarrow> EUserPermissions option" where
  "role_at s level workspaceSlug projectId =
     (case level of
        WORKSPACE \<Rightarrow> map_option role (workspaceUserInfo s workspaceSlug)
      | PROJECT \<Rightarrow> ProjectRoleIndex s workspaceSlug projectId)"


subsection \<open>Sessions\<close>

text \<open>
  A session is the sequence of actions that have settled, each with the way its remote
  call settled, applied to the store in the order in which they settled.
\<close>

datatype event =
    FetchUserWorkspaceInfo string "error + IWorkspaceMemberMe option"
  | LeaveWorkspace string "error + unit"
  | FetchUserProjectInfo string string "error + IProjectMember option"
  | FetchUserProjectPermissions string "error + IUserProjectsRole option"
  | JoinProject string string "error + EUserPermissions option"
  | LeaveProject string string "error + unit"

fun step :: "runtime \<Rightarrow> store \<Rightarrow> event \<Rightarrow> store" where
  "step rtm s (FetchUserWorkspaceInfo ws remote) = cache (fetchUserWorkspaceInfo ws remote s)"
| "step rtm s (LeaveWorkspace ws remote) = cache (leaveWorkspace rtm ws remote s)"
| "step rtm s (FetchUserProjectInfo ws pid remote) = cache (fetchUserProjectInfo ws pid remote s)"
| "step rtm s (FetchUserProjectPermissions ws remote) = cache (fetchUserProjectPermissions ws remote s)"
| "step rtm s (JoinProject ws pid remote) = cache (joinProject ws pid remote s)"
| "step rtm s (LeaveProject ws pid remote) = cache (leaveProject ws pid remote s)"

definition run :: "runtime \<Rightarrow> event list \<Rightarrow> store" where
  "run rtm evs = foldl (step rtm) initial_store evs"

text \<open>The events that put a record for the workspace into \<^verbatim>\<open>workspaceUserInfo\<close>.\<close>

fun populates :: "string \<Rightarrow> event \<Rightarrow> bool" where
  "populates ws (FetchUserWorkspaceInfo ws' (Inr (Some r))) = (ws' = ws)"
| "populates ws _ = False"

subsection \<open>Sample data\<close>

text \<open>
  Values for the examples. The members of \<^verbatim>\<open>EUserPermissions\<close> are declared outside the
  sources at hand: \<open>ADMIN\<close> and \<open>MEMBER\<close> stand for two of its ranks, and no general
  statement below depends on their numbers.
\<close>

definition ADMIN :: EUserPermissions where "ADMIN = 20"
definition MEMBER :: EUserPermissions where "MEMBER = 15"

definition me_ws1 :: "EUserPermissions \<Rightarrow> IWorkspaceMemberMe" where
  "me_ws1 r = \<lparr>id = ''wm1'', member = ''u1'', role = r, workspace = ''ws1''\<rparr>"

definition me_p1 :: "EUserPermissions \<Rightarrow> IProjectMember" where
  "me_p1 r = \<lparr>id = ''pm1'', member = ''u1'', role = r, project = ''p1''\<rparr>"

definition sample_store :: "EUserPermissions \<Rightarrow> store" where
  "sample_store r =
     \<lparr>workspaceUserInfo = [''ws1'' \<mapsto> me_ws1 r],
      projectUserInfo = [''ws1'' \<mapsto> Some [''p1'' \<mapsto> me_p1 r, ''p3'' \<mapsto> me_p1 r]],
      projectPermissions = [''ws1'' \<mapsto> Some [''p1'' \<mapsto> r, ''p3'' \<mapsto> r]]\<rparr>"

definition empty_key_store :: "EUserPermissions \<Rightarrow> store" where
  "empty_key_store r =
     \<lparr>workspaceUserInfo = ['''' \<mapsto> me_ws1 r],
      projectUserInfo = Map.empty,
      projectPermissions = [''ws1'' \<mapsto> Some ['''' \<mapsto> r]]\<rparr>"

definition bulk_roles :: IUserProjectsRole where
  "bulk_roles = [''p1'' \<mapsto> MEMBER, ''p2'' \<mapsto> ADMIN]"

definition zero_roles :: IUserProjectsRole where
  "zero_roles = [''p1'' \<mapsto> 0, '''' \<mapsto> ADMIN]"

definition no_route :: router where
  "no_route = \<lparr>currentWorkspaceSlug = None, currentProjectId = None\<rparr>"

definition route_ws1_p1 :: router where
  "route_ws1_p1 = \<lparr>currentWorkspaceSlug = Some ''ws1'', currentProjectId = Some ''p1''\<rparr>"

definition says :: "bool \<Rightarrow> (unit \<Rightarrow> error + bool) option" where
  "says b = Some (\<lambda>_. Inr b)"

text \<open>
  A runtime for the examples. Of \<^verbatim>\<open>Object.prototype\<close> it has the twelve properties
  that every plain object inherits; \<open>JObject 0\<close> is the function \<^verbatim>\<open>Object\<close>, the
  \<^verbatim>\<open>constructor\<close>, whose \<^verbatim>\<open>length\<close> is \<open>1\<close>, and of the properties of the inherited
  values only that one is listed. Of lodash it has the paths written with dots, and it
  leaves a record as it is where lodash would delete inside it, which no example does.
\<close>

definition object_prototype :: "string \<rightharpoonup> jsval" where
  "object_prototype =
     [''constructor'' \<mapsto> JObject 0, ''toString'' \<mapsto> JObject 1, ''__proto__'' \<mapsto> JObject 2,
      ''hasOwnProperty'' \<mapsto> JObject 3, ''valueOf'' \<mapsto> JObject 4, ''isPrototypeOf'' \<mapsto> JObject 5,
      ''propertyIsEnumerable'' \<mapsto> JObject 6, ''toLocaleString'' \<mapsto> JObject 7,
      ''__defineGetter__'' \<mapsto> JObject 8, ''__defineSetter__'' \<mapsto> JObject 9,
      ''__lookupGetter__'' \<mapsto> JObject 10, ''__lookupSetter__'' \<mapsto> JObject 11]"

fun split_dots :: "string \<Rightarrow> string \<Rightarrow> string list" where
  "split_dots acc [] = [rev acc]"
| "split_dots acc (c # cs) =
     (if c = CHR ''.'' then rev acc # split_dots [] cs else split_dots (c # acc) cs)"

definition sample_runtime :: runtime where
  "sample_runtime =
     \<lparr>inherited = object_prototype,
      property = (\<lambda>v k. if v = JObject 0 \<and> k = ''length'' then Some (JNumber 1) else None),
      isDeepPath = (\<lambda>k. CHR ''.'' \<in> set k),
      stringToPath = split_dots [],
      pruneWorkspaceMember = (\<lambda>r path. r),
      pruneProjectMember = (\<lambda>r path. r)\<rparr>"

section \<open>Properties\<close>

lemmas action_defs =
  fetchUserWorkspaceInfo_def leaveWorkspace_def fetchUserProjectInfo_def
  fetchUserProjectPermissions_def joinProject_def leaveProject_def resolved_def rethrown_def

lemmas lookup_defs =
  workspaceInfoBySlug_def projectPermissionsByWorkspaceSlugAndProjectId_def get_property_def
  ProjectMembership_def ProjectRoleIndex_def role_at_def chain2_def

lemmas sample_defs =
  ADMIN_def MEMBER_def me_ws1_def me_p1_def sample_store_def no_route_def route_ws1_p1_def
  says_def initial_store_def empty_key_store_def bulk_roles_def zero_roles_def
  sample_runtime_def object_prototype_def

subsection \<open>The permission check\<close>

















subsection \<open>Failure\<close>

text \<open>
  Claim C2. When the remote call of an action rejects, the action leaves the three cache
  maps as they were and rejects with the same error; this holds for each of the six
  actions, and so a failed \<^verbatim>\<open>fetchUserProjectInfo\<close> leaves ProjectMembership and
  ProjectRoleIndex as they were. (The only other effect is the line on the console.)
\<close>

theorem failed_action_keeps_cache_and_rethrows:
  "cache (fetchUserWorkspaceInfo ws (Inl e) s) = s
   \<and> outcome (fetchUserWorkspaceInfo ws (Inl e) s) = Inl e
   \<and> cache (leaveWorkspace rtm ws (Inl e) s) = s
   \<and> outcome (leaveWorkspace rtm ws (Inl e) s) = Inl e
   \<and> cache (fetchUserProjectInfo ws pid (Inl e) s) = s
   \<and> outcome (fetchUserProjectInfo ws pid (Inl e) s) = Inl e
   \<and> ProjectMembership (cache (fetchUserProjectInfo ws pid (Inl e) s)) = ProjectMembership s
   \<and> ProjectRoleIndex (cache (fetchUserProjectInfo ws pid (Inl e) s)) = ProjectRoleIndex s
   \<and> cache (fetchUserProjectPermissions ws (Inl e) s) = s
   \<and> outcome (fetchUserProjectPermissions ws (Inl e) s) = Inl e
   \<and> cache (joinProject ws pid (Inl e) s) = s
   \<and> outcome (joinProject ws pid (Inl e) s) = Inl e
   \<and> cache (leaveProject ws pid (Inl e) s) = s
   \<and> outcome (leaveProject ws pid (Inl e) s) = Inl e"
  by (simp add: action_defs)

subsection \<open>Successful actions\<close>


lemma chain2_unset2:
  "chain2 (lodash_unset2 obj k1 k2) k1' k2' =
     (if k1' = k1 \<and> k2' = k2 then None else chain2 obj k1' k2')"
  by (simp add: lodash_unset2_def chain2_def split: option.splits)

lemma unset2_same:
  "lodash_unset2 obj k1 k2 k1 =
     (case obj k1 of Some (Some inner) \<Rightarrow> Some (Some (inner(k2 := None))) | slot \<Rightarrow> slot)"
  by (simp add: lodash_unset2_def split: option.splits)

lemma unset2_other: "k1' \<noteq> k1 \<Longrightarrow> lodash_unset2 obj k1 k2 k1' = obj k1'"
  by (simp add: lodash_unset2_def split: option.splits)

text \<open>
  \<^verbatim>\<open>unset\<close> with a string never adds a key, and the string itself is not an own key
  afterwards, however lodash has parsed it.
\<close>

lemma lodash_unset_absent: "obj k = None \<Longrightarrow> lodash_unset rtm inside obj path k = None"
  by (auto simp: lodash_unset_def split: list.splits option.splits)

lemma lodash_unset_removes: "lodash_unset rtm inside obj path path = None"
proof (cases "obj path")
  case None
  then show ?thesis by (rule lodash_unset_absent)
next
  case (Some v)
  then show ?thesis by (simp add: lodash_unset_def)
qed

text \<open>
  When the string is an own key, or is not a deep path, \<^verbatim>\<open>unset\<close> touches no other
  key.
\<close>

lemma lodash_unset_other:
  "obj path \<noteq> None \<or> \<not> isDeepPath rtm path \<Longrightarrow> k \<noteq> path \<Longrightarrow>
   lodash_unset rtm inside obj path k = obj k"
  by (auto simp: lodash_unset_def)

text \<open>
  Claim C3, as amended. A successful \<^verbatim>\<open>leaveWorkspace\<close> removes the key workspaceSlug
  from the three maps in its one update. Afterwards, for a workspaceSlug that is not the
  name of an inherited property, \<^verbatim>\<open>workspaceInfoBySlug\<close> gives undefined for that slug,
  and so does \<^verbatim>\<open>projectPermissionsByWorkspaceSlugAndProjectId\<close> for that slug and every
  projectId.
\<close>

theorem leaveWorkspace_clears_workspace:
  "outcome (leaveWorkspace rtm ws (Inr ()) s) = Inr ()
   \<and> workspaceUserInfo (cache (leaveWorkspace rtm ws (Inr ()) s)) ws = None
   \<and> projectUserInfo (cache (leaveWorkspace rtm ws (Inr ()) s)) ws = None
   \<and> projectPermissions (cache (leaveWorkspace rtm ws (Inr ()) s)) ws = None
   \<and> (\<forall>pid. ProjectMembership (cache (leaveWorkspace rtm ws (Inr ()) s)) ws pid = None)
   \<and> (\<forall>pid. ProjectRoleIndex (cache (leaveWorkspace rtm ws (Inr ()) s)) ws pid = None)
   \<and> (inherited rtm ws = None \<longrightarrow>
        workspaceInfoBySlug rtm (cache (leaveWorkspace rtm ws (Inr ()) s)) ws = Undefined
        \<and> (\<forall>pid. projectPermissionsByWorkspaceSlugAndProjectId rtm
                    (cache (leaveWorkspace rtm ws (Inr ()) s)) ws pid = Undefined))"
  by (simp add: leaveWorkspace_def resolved_def lodash_unset_removes lookup_defs)

theorem leaveWorkspace_clears_workspace_witness:
  "workspaceInfoBySlug sample_runtime (sample_store ADMIN) ''ws1'' = Own (me_ws1 ADMIN)
   \<and> workspaceInfoBySlug sample_runtime
       (cache (leaveWorkspace sample_runtime ''ws1'' (Inr ()) (sample_store ADMIN))) ''ws1''
     = Undefined
   \<and> projectPermissionsByWorkspaceSlugAndProjectId sample_runtime
       (cache (leaveWorkspace sample_runtime ''ws1'' (Inr ()) (sample_store ADMIN))) ''ws1'' ''p1''
     = Undefined"
proof -
  have before: "workspaceInfoBySlug sample_runtime (sample_store ADMIN) ''ws1'' = Own (me_ws1 ADMIN)"
    by (simp add: lookup_defs sample_defs)
  have plain: "inherited sample_runtime ''ws1'' = None"
    by (simp add: sample_defs)
  show ?thesis
    using leaveWorkspace_clears_workspace [of sample_runtime "''ws1''" "sample_store ADMIN"]
      before plain
    by simp
qed

text \<open>
  Claim C3 as it was stated fails for a workspaceSlug that names an inherited property:
  after leaving the workspace \<^verbatim>\<open>constructor\<close> the lookups do not give undefined, they
  give what every object inherits.
\<close>

theorem leaveWorkspace_inherited_counterexample:
  "workspaceInfoBySlug sample_runtime
     (cache (leaveWorkspace sample_runtime ''constructor'' (Inr ()) (sample_store ADMIN)))
     ''constructor'' = Foreign (JObject 0)
   \<and> projectPermissionsByWorkspaceSlugAndProjectId sample_runtime
       (cache (leaveWorkspace sample_runtime ''constructor'' (Inr ()) (sample_store ADMIN)))
       ''constructor'' ''length'' = Foreign (JNumber 1)"
  by (simp add: leaveWorkspace_def resolved_def lodash_unset_def lookup_defs sample_defs)

text \<open>
  Claim C4, as amended. When \<^verbatim>\<open>fetchUserProjectPermissions\<close> resolves to a mapping
  \<open>m\<close>, for a workspaceSlug that lodash does not refuse, the slice of ProjectRoleIndex
  for the workspaceSlug is \<open>m\<close> afterwards, whatever it was: every entry reads as in
  \<open>m\<close>. Through \<^verbatim>\<open>projectPermissionsByWorkspaceSlugAndProjectId\<close>, a projectId that
  \<open>m\<close> lacks is no longer retrievable, unless it names an inherited property; a
  projectId that \<open>m\<close> has is retrieved with the role of \<open>m\<close> when the two keys are not
  empty and the role is not \<open>0\<close>, and reads as undefined otherwise.
\<close>

theorem fetchUserProjectPermissions_overwrites:
  "outcome (fetchUserProjectPermissions ws (Inr (Some m)) s) = Inr (Some m)
   \<and> (\<not> refused ws \<longrightarrow>
        projectPermissions (cache (fetchUserProjectPermissions ws (Inr (Some m)) s)) ws
          = Some (Some m)
        \<and> (\<forall>pid. ProjectRoleIndex (cache (fetchUserProjectPermissions ws (Inr (Some m)) s)) ws pid
                 = m pid)
        \<and> (\<forall>pid. projectPermissionsByWorkspaceSlugAndProjectId rtm
                   (cache (fetchUserProjectPermissions ws (Inr (Some m)) s)) ws pid
                 = (if ws = [] \<or> pid = [] then Undefined
                    else (case m pid of
                            Some r \<Rightarrow> if r = 0 then Undefined else Own r
                          | None \<Rightarrow>
                              (case inherited rtm pid of
                                 Some w \<Rightarrow> if truthy w then Foreign w else Undefined
                               | None \<Rightarrow> Undefined))))
        \<and> (\<forall>pid. m pid = None \<longrightarrow> inherited rtm pid = None \<longrightarrow>
              projectPermissionsByWorkspaceSlugAndProjectId rtm
                (cache (fetchUserProjectPermissions ws (Inr (Some m)) s)) ws pid = Undefined)
        \<and> (ws \<noteq> [] \<longrightarrow>
             (\<forall>pid r. m pid = Some r \<longrightarrow> pid \<noteq> [] \<longrightarrow> r \<noteq> 0 \<longrightarrow>
                projectPermissionsByWorkspaceSlugAndProjectId rtm
                  (cache (fetchUserProjectPermissions ws (Inr (Some m)) s)) ws pid = Own r)))"
  by (auto simp: fetchUserProjectPermissions_def resolved_def lodash_set1_def lookup_defs
      split: option.splits)

theorem fetchUserProjectPermissions_overwrites_witness:
  "projectPermissionsByWorkspaceSlugAndProjectId sample_runtime (sample_store ADMIN) ''ws1'' ''p3''
     = Own ADMIN
   \<and> projectPermissionsByWorkspaceSlugAndProjectId sample_runtime
        (cache (fetchUserProjectPermissions ''ws1'' (Inr (Some bulk_roles)) (sample_store ADMIN)))
        ''ws1'' ''p3'' = Undefined
   \<and> projectPermissionsByWorkspaceSlugAndProjectId sample_runtime
        (cache (fetchUserProjectPermissions ''ws1'' (Inr (Some bulk_roles)) (sample_store ADMIN)))
        ''ws1'' ''p1'' = Own MEMBER
   \<and> projectPermissionsByWorkspaceSlugAndProjectId sample_runtime
        (cache (fetchUserProjectPermissions ''ws1'' (Inr (Some bulk_roles)) (sample_store ADMIN)))
        ''ws1'' ''p2'' = Own ADMIN"
proof -
  have before:
    "projectPermissionsByWorkspaceSlugAndProjectId sample_runtime (sample_store ADMIN) ''ws1'' ''p3''
       = Own ADMIN"
    by (simp add: lookup_defs sample_defs)
  have p1: "bulk_roles ''p1'' = Some MEMBER" and p2: "bulk_roles ''p2'' = Some ADMIN"
    and p3: "bulk_roles ''p3'' = None"
    by (simp_all add: bulk_roles_def)
  have nz: "MEMBER \<noteq> 0" "ADMIN \<noteq> 0" and ne: "''ws1'' \<noteq> []" "''p1'' \<noteq> []" "''p2'' \<noteq> []"
    and ok: "\<not> refused ''ws1''" and plain: "inherited sample_runtime ''p3'' = None"
    by (simp_all add: sample_defs refused_def)
  show ?thesis
    using fetchUserProjectPermissions_overwrites
        [of "''ws1''" bulk_roles "sample_store ADMIN" sample_runtime]
      before p1 p2 p3 nz ne ok plain
    by blast
qed

text \<open>
  Claim C4 as it was stated fails in four ways: for a role \<open>0\<close> and for an empty key,
  where the mapping has the entry and the lookup returns undefined; for the workspaceSlug
  \<^verbatim>\<open>constructor\<close>, under which nothing is stored; and for the projectId
  \<^verbatim>\<open>toString\<close>, which the mapping lacks and the lookup finds.
\<close>

theorem fetchUserProjectPermissions_falsy_counterexample:
  "zero_roles ''p1'' = Some 0
   \<and> projectPermissionsByWorkspaceSlugAndProjectId sample_runtime
        (cache (fetchUserProjectPermissions ''ws1'' (Inr (Some zero_roles)) initial_store))
        ''ws1'' ''p1'' = Undefined
   \<and> zero_roles '''' = Some ADMIN
   \<and> projectPermissionsByWorkspaceSlugAndProjectId sample_runtime
        (cache (fetchUserProjectPermissions ''ws1'' (Inr (Some zero_roles)) initial_store))
        ''ws1'' '''' = Undefined
   \<and> bulk_roles ''p1'' = Some MEMBER
   \<and> projectPermissionsByWorkspaceSlugAndProjectId sample_runtime
        (cache (fetchUserProjectPermissions '''' (Inr (Some bulk_roles)) initial_store))
        '''' ''p1'' = Undefined
   \<and> projectPermissions
        (cache (fetchUserProjectPermissions ''constructor'' (Inr (Some bulk_roles)) initial_store))
        ''constructor'' = None
   \<and> bulk_roles ''toString'' = None
   \<and> projectPermissionsByWorkspaceSlugAndProjectId sample_runtime
        (cache (fetchUserProjectPermissions ''ws1'' (Inr (Some bulk_roles)) initial_store))
        ''ws1'' ''toString'' = Foreign (JObject 1)"
  by (simp add: fetchUserProjectPermissions_def resolved_def lodash_set1_def refused_def
      lookup_defs sample_defs)




text \<open>
  Claim C7. A successful \<^verbatim>\<open>leaveProject\<close> removes the entry of ProjectRoleIndex at
  (workspaceSlug, projectId) and changes nothing else: the workspace map and the whole of
  ProjectMembership, the entry at (workspaceSlug, projectId) included, are as before, and
  so is every other entry of ProjectRoleIndex.
\<close>

theorem leaveProject_removes_one_role:
  "outcome (leaveProject ws pid (Inr ()) s) = Inr ()
   \<and> workspaceUserInfo (cache (leaveProject ws pid (Inr ()) s)) = workspaceUserInfo s
   \<and> projectUserInfo (cache (leaveProject ws pid (Inr ()) s)) = projectUserInfo s
   \<and> ProjectMembership (cache (leaveProject ws pid (Inr ()) s)) ws pid = ProjectMembership s ws pid
   \<and> ProjectRoleIndex (cache (leaveProject ws pid (Inr ()) s)) ws pid = None
   \<and> (\<forall>ws' pid'. (ws', pid') \<noteq> (ws, pid) \<longrightarrow>
         ProjectRoleIndex (cache (leaveProject ws pid (Inr ()) s)) ws' pid'
           = ProjectRoleIndex s ws' pid')
   \<and> (\<forall>ws'. ws' \<noteq> ws \<longrightarrow>
         projectPermissions (cache (leaveProject ws pid (Inr ()) s)) ws' = projectPermissions s ws')
   \<and> projectPermissions (cache (leaveProject ws pid (Inr ()) s)) ws
       = (case projectPermissions s ws of
            Some (Some roles) \<Rightarrow> Some (Some (roles(pid := None)))
          | slot \<Rightarrow> slot)"
  by (simp add: leaveProject_def resolved_def ProjectMembership_def ProjectRoleIndex_def
      chain2_unset2 unset2_other unset2_same)

theorem leaveProject_removes_one_role_witness:
  "ProjectRoleIndex (cache (leaveProject ''ws1'' ''p1'' (Inr ()) (sample_store ADMIN))) ''ws1'' ''p1''
     = None
   \<and> ProjectMembership (cache (leaveProject ''ws1'' ''p1'' (Inr ()) (sample_store ADMIN))) ''ws1'' ''p1''
     = Some (me_p1 ADMIN)
   \<and> ProjectRoleIndex (cache (leaveProject ''ws1'' ''p1'' (Inr ()) (sample_store ADMIN))) ''ws1'' ''p3''
     = Some ADMIN"
proof -
  have other: "(''ws1'', ''p3'') \<noteq> (''ws1'', ''p1'')" by simp
  have before: "ProjectRoleIndex (sample_store ADMIN) ''ws1'' ''p3'' = Some ADMIN"
    "ProjectMembership (sample_store ADMIN) ''ws1'' ''p1'' = Some (me_p1 ADMIN)"
    by (simp_all add: ProjectRoleIndex_def ProjectMembership_def chain2_def sample_defs)
  show ?thesis
    using leaveProject_removes_one_role [of "''ws1''" "''p1''" "sample_store ADMIN"] other before
    by metis
qed

subsection \<open>Before and after a fetch\<close>

text \<open>An event that does not populate a workspace leaves its slot empty.\<close>

lemma step_keeps_absent:
  "workspaceUserInfo s ws = None \<Longrightarrow> \<not> populates ws ev \<Longrightarrow>
   workspaceUserInfo (step rtm s ev) ws = None"
  by (cases "(ws, ev)" rule: populates.cases)
    (auto simp: action_defs lodash_set1_def lodash_unset_absent split: sum.splits option.splits)

lemma foldl_keeps_absent:
  "workspaceUserInfo s ws = None \<Longrightarrow> \<forall>ev \<in> set evs. \<not> populates ws ev \<Longrightarrow>
   workspaceUserInfo (foldl (step rtm) s evs) ws = None"
proof (induction evs arbitrary: s)
  case Nil
  then show ?case by simp
next
  case (Cons ev evs)
  from Cons.prems have "workspaceUserInfo (step rtm s ev) ws = None"
    by (simp add: step_keeps_absent)
  with Cons.prems show ?case
    by (simp add: Cons.IH)
qed

text \<open>
  Claim C8, as amended. In a session in which no \<^verbatim>\<open>fetchUserWorkspaceInfo\<close> for the
  workspaceSlug has resolved to a record, \<^verbatim>\<open>workspaceInfoBySlug\<close> gives undefined for
  it, when it is not the name of an inherited property. After a
  \<^verbatim>\<open>fetchUserWorkspaceInfo\<close> has resolved to a record, for a workspaceSlug that is not
  empty and that lodash does not refuse, \<^verbatim>\<open>workspaceInfoBySlug\<close> gives that record, and
  so its role: ADMIN when the record says ADMIN.
\<close>

theorem workspaceInfoBySlug_before_and_after_fetch:
  "((\<forall>ev \<in> set evs. \<not> populates ws ev) \<longrightarrow> inherited rtm ws = None \<longrightarrow>
      workspaceInfoBySlug rtm (run rtm evs) ws = Undefined)
   \<and> (ws \<noteq> [] \<longrightarrow> \<not> refused ws \<longrightarrow>
        outcome (fetchUserWorkspaceInfo ws (Inr (Some r)) s) = Inr (Some r)
        \<and> workspaceInfoBySlug rtm (cache (fetchUserWorkspaceInfo ws (Inr (Some r)) s)) ws = Own r)"
proof -
  have "workspaceUserInfo (run rtm evs) ws = None" if "\<forall>ev \<in> set evs. \<not> populates ws ev"
    unfolding run_def using that by (intro foldl_keeps_absent) (simp_all add: initial_store_def)
  then show ?thesis
    by (simp add: workspaceInfoBySlug_def get_property_def fetchUserWorkspaceInfo_def resolved_def
        lodash_set1_def)
qed

theorem workspaceInfoBySlug_before_and_after_fetch_witness:
  "workspaceInfoBySlug sample_runtime
     (run sample_runtime
        [FetchUserWorkspaceInfo ''ws1'' (Inr (Some (me_ws1 ADMIN))),
         FetchUserWorkspaceInfo ''ws2'' (Inl (Error ''403'')),
         FetchUserProjectPermissions ''ws2'' (Inr (Some bulk_roles))]) ''ws2'' = Undefined
   \<and> workspaceInfoBySlug sample_runtime
       (cache (fetchUserWorkspaceInfo ''ws1'' (Inr (Some (me_ws1 ADMIN))) initial_store)) ''ws1''
     = Own (me_ws1 ADMIN)
   \<and> role (me_ws1 ADMIN) = ADMIN"
proof -
  have quiet:
    "\<forall>ev \<in> set [FetchUserWorkspaceInfo ''ws1'' (Inr (Some (me_ws1 ADMIN))),
                 FetchUserWorkspaceInfo ''ws2'' (Inl (Error ''403'')),
                 FetchUserProjectPermissions ''ws2'' (Inr (Some bulk_roles))].
       \<not> populates ''ws2'' ev"
    by simp
  have r: "role (me_ws1 ADMIN) = ADMIN" by (simp add: me_ws1_def)
  have ne: "''ws1'' \<noteq> []" and ok: "\<not> refused ''ws1''"
    and plain: "inherited sample_runtime ''ws2'' = None"
    by (simp_all add: refused_def sample_defs)
  show ?thesis
    using workspaceInfoBySlug_before_and_after_fetch
        [of "[FetchUserWorkspaceInfo ''ws1'' (Inr (Some (me_ws1 ADMIN))),
              FetchUserWorkspaceInfo ''ws2'' (Inl (Error ''403'')),
              FetchUserProjectPermissions ''ws2'' (Inr (Some bulk_roles))]" "''ws2''"
            sample_runtime]
      workspaceInfoBySlug_before_and_after_fetch
        [of "[]" "''ws1''" sample_runtime "me_ws1 ADMIN" initial_store]
      quiet r ne ok plain
    by metis
qed

text \<open>
  Claim C8 as it was stated fails in three ways. For the empty string, the fetch stores the
  record under the empty key, and the lookup, which takes an empty workspaceSlug as
  missing, returns undefined. For the slug \<^verbatim>\<open>constructor\<close>, the lookup on the empty
  store, before any fetch, gives an inherited value and not undefined; and a fetch for it
  that resolves to a record stores nothing, so the lookup does not give the record.
\<close>

theorem workspaceInfoBySlug_empty_slug_counterexample:
  "workspaceUserInfo (cache (fetchUserWorkspaceInfo '''' (Inr (Some (me_ws1 ADMIN))) initial_store)) ''''
     = Some (me_ws1 ADMIN)
   \<and> workspaceInfoBySlug sample_runtime
       (cache (fetchUserWorkspaceInfo '''' (Inr (Some (me_ws1 ADMIN))) initial_store)) ''''
     = Undefined
   \<and> workspaceInfoBySlug sample_runtime (run sample_runtime []) ''constructor''
     = Foreign (JObject 0)
   \<and> workspaceUserInfo
       (cache (fetchUserWorkspaceInfo ''constructor'' (Inr (Some (me_ws1 ADMIN))) initial_store))
       ''constructor'' = None
   \<and> workspaceInfoBySlug sample_runtime
       (cache (fetchUserWorkspaceInfo ''constructor'' (Inr (Some (me_ws1 ADMIN))) initial_store))
       ''constructor'' = Foreign (JObject 0)"
  by (simp add: fetchUserWorkspaceInfo_def resolved_def lodash_set1_def refused_def run_def
      lookup_defs sample_defs)

subsection \<open>Falsy responses\<close>

text \<open>
  Claim C10, as amended. \<^verbatim>\<open>fetchUserWorkspaceInfo\<close> and \<^verbatim>\<open>fetchUserProjectInfo\<close>
  write only when the remote call resolves to a truthy response: after a falsy response
  the store is as before, and the response is returned with no error and no line on the
  console; after a record the record is stored. \<^verbatim>\<open>fetchUserProjectPermissions\<close> writes
  its response, whatever it is, without a test: afterwards the slot of the workspaceSlug
  holds the response, so after a falsy response it holds undefined and no role of that
  workspace can be read any more, whatever was stored. All writes are for keys that lodash
  does not refuse.
\<close>

theorem falsy_response_guarded_or_written:
  "cache (fetchUserWorkspaceInfo ws (Inr None) s) = s
   \<and> outcome (fetchUserWorkspaceInfo ws (Inr None) s) = Inr None
   \<and> logged (fetchUserWorkspaceInfo ws (Inr None) s) = []
   \<and> cache (fetchUserProjectInfo ws pid (Inr None) s) = s
   \<and> outcome (fetchUserProjectInfo ws pid (Inr None) s) = Inr None
   \<and> logged (fetchUserProjectInfo ws pid (Inr None) s) = []
   \<and> outcome (fetchUserProjectPermissions ws (Inr response) s) = Inr response
   \<and> logged (fetchUserProjectPermissions ws (Inr response) s) = []
   \<and> (\<not> refused ws \<longrightarrow>
        workspaceUserInfo (cache (fetchUserWorkspaceInfo ws (Inr (Some r)) s)) ws = Some r
        \<and> projectPermissions (cache (fetchUserProjectPermissions ws (Inr response) s)) ws
            = Some response
        \<and> (\<forall>ws'. ws' \<noteq> ws \<longrightarrow>
              projectPermissions (cache (fetchUserProjectPermissions ws (Inr response) s)) ws'
                = projectPermissions s ws')
        \<and> (\<forall>p. ProjectRoleIndex (cache (fetchUserProjectPermissions ws (Inr None) s)) ws p = None)
        \<and> (\<forall>p. projectPermissionsByWorkspaceSlugAndProjectId rtm
                  (cache (fetchUserProjectPermissions ws (Inr None) s)) ws p = Undefined)
        \<and> (\<not> refused pid \<longrightarrow>
             ProjectMembership (cache (fetchUserProjectInfo ws pid (Inr (Some m)) s)) ws pid
               = Some m))"
  by (simp add: fetchUserWorkspaceInfo_def fetchUserProjectInfo_def fetchUserProjectPermissions_def
      resolved_def lodash_set1_def lodash_set2_def lookup_defs split: option.splits)

theorem falsy_response_guarded_or_written_witness:
  "projectPermissionsByWorkspaceSlugAndProjectId sample_runtime (sample_store ADMIN) ''ws1'' ''p1''
     = Own ADMIN
   \<and> projectPermissionsByWorkspaceSlugAndProjectId sample_runtime
       (cache (fetchUserProjectPermissions ''ws1'' (Inr None) (sample_store ADMIN))) ''ws1'' ''p1''
     = Undefined
   \<and> projectPermissions
       (cache (fetchUserProjectPermissions ''ws1'' (Inr (Some bulk_roles)) (sample_store ADMIN)))
       ''ws1'' = Some (Some bulk_roles)
   \<and> cache (fetchUserWorkspaceInfo ''ws1'' (Inr None) (sample_store ADMIN)) = sample_store ADMIN"
proof -
  have before:
    "projectPermissionsByWorkspaceSlugAndProjectId sample_runtime (sample_store ADMIN) ''ws1'' ''p1''
       = Own ADMIN"
    by (simp add: lookup_defs sample_defs)
  have ok: "\<not> refused ''ws1''" by (simp add: refused_def)
  show ?thesis
    using falsy_response_guarded_or_written
        [of "''ws1''" "sample_store ADMIN" "''p1''" None "me_ws1 ADMIN" sample_runtime]
      falsy_response_guarded_or_written
        [of "''ws1''" "sample_store ADMIN" "''p1''" "Some bulk_roles" "me_ws1 ADMIN" sample_runtime]
      before ok
    by simp
qed

text \<open>
  Claim C10 as it was stated fails for the keys that lodash refuses: for the workspaceSlug
  \<^verbatim>\<open>prototype\<close> the response of \<^verbatim>\<open>fetchUserProjectPermissions\<close> is not written, be it a
  mapping or falsy, and the store is as before.
\<close>

theorem falsy_response_refused_counterexample:
  "projectPermissions
     (cache (fetchUserProjectPermissions ''prototype'' (Inr (Some bulk_roles)) (sample_store ADMIN)))
     ''prototype'' = None
   \<and> cache (fetchUserProjectPermissions ''prototype'' (Inr None) (sample_store ADMIN))
     = sample_store ADMIN
   \<and> projectPermissions
     (cache (fetchUserProjectPermissions ''prototype'' (Inr None) (sample_store ADMIN)))
     ''prototype'' = None"
  by (simp add: fetchUserProjectPermissions_def resolved_def lodash_set1_def refused_def
      sample_store_def)

end
